theory Spec2Isabelle
  imports Main "HOL-Library.Word"
begin

section \<open>Argument conversion and unpacking (src/scripting/argconv.h)\<close>

text \<open>
  A shallow embedding of \<^verbatim>\<open>ArgumentConversionAtom<T>\<close> (the per-type pair
  \<^verbatim>\<open>toConcrete\<close>/\<^verbatim>\<open>toAbstract\<close>) and of \<^verbatim>\<open>ArgUnpackAtom\<close> (the cursor over one
  call's argument array). A C++ exception is an \<open>error\<close> value; the heap is the table of
  reference counts; the caller's native variables, which the unpacker writes through
  \<^verbatim>\<open>T&\<close> references, are a store from names to values.
\<close>

subsection \<open>Dynamic values\<close>

type_synonym addr = nat
  \<comment> \<open>an \<^verbatim>\<open>ASObject*\<close>\<close>

type_synonym class_id = string
  \<comment> \<open>the C++ class \<^verbatim>\<open>T\<close> that instantiates a template\<close>

type_synonym number_t = "64 word"
  \<comment> \<open>a double, carried as its 64 bits: no arithmetic is done on it here\<close>

type_synonym tiny_string = string

type_synonym RGB = "8 word \<times> 8 word \<times> 8 word"

text \<open>
  Modelled from the spec: the tagged dynamic value \<^verbatim>\<open>asAtom\<close>, whose declaration is
  outside src/, with its two sentinels and its tag tests. The spec gives it as a closed
  variant over Undefined, Null, Boolean, Integer, UnsignedInteger, Number, String and
  ObjectRef; the code also tests for the invalid atom (\<^verbatim>\<open>isValid\<close>, \<^verbatim>\<open>isInvalid\<close>),
  which is the first constructor. \<^verbatim>\<open>setNull(ret)\<close> writes \<open>Atom_Null\<close> to \<^verbatim>\<open>ret\<close>.
\<close>

datatype asAtom =
    Atom_Invalid
  | Atom_Undefined
  | Atom_Null
  | Atom_Boolean bool
  | Atom_Integer "32 word"
  | Atom_UnsignedInteger "32 word"
  | Atom_Number number_t
  | Atom_String tiny_string
  | Atom_ObjectRef addr

definition nullAtom :: asAtom where
  "nullAtom = Atom_Null"

definition undefinedAtom :: asAtom where
  "undefinedAtom = Atom_Undefined"

definition isNull :: "asAtom \<Rightarrow> bool" where
  "isNull a = (a = Atom_Null)"

definition isUndefined :: "asAtom \<Rightarrow> bool" where
  "isUndefined a = (a = Atom_Undefined)"

definition isInvalid :: "asAtom \<Rightarrow> bool" where
  "isInvalid a = (a = Atom_Invalid)"

definition isValid :: "asAtom \<Rightarrow> bool" where
  "isValid a = (a \<noteq> Atom_Invalid)"

text \<open>
  Modelled from the spec: \<^verbatim>\<open>asAtomHandler::fromObject\<close> (outside src/) wraps an object
  pointer into a dynamic value with the ObjectRef tag.
\<close>

definition fromObject :: "addr \<Rightarrow> asAtom" where
  "fromObject p = Atom_ObjectRef p"

subsection \<open>Reference counts\<close>

type_synonym refcounts = "addr \<Rightarrow> nat"

text \<open>
  Modelled from the spec: \<^verbatim>\<open>incRef\<close> (outside src/) is the object model's
  increment-reference-count primitive: it adds one to the counted-reference total of
  the object. \<^verbatim>\<open>ASATOM_INCREF\<close> (a macro outside src/) applies it to the object of a
  dynamic value; only an ObjectRef refers to a counted object.
\<close>

definition incRef :: "addr \<Rightarrow> refcounts \<Rightarrow> refcounts" where
  "incRef p rc = rc(p := Suc (rc p))"

fun ASATOM_INCREF :: "asAtom \<Rightarrow> refcounts \<Rightarrow> refcounts" where
  "ASATOM_INCREF (Atom_ObjectRef p) rc = incRef p rc"
| "ASATOM_INCREF a rc = rc"

text \<open>
  Modelled from the spec: \<^verbatim>\<open>decRef\<close> (outside src/) is the implicit decrement of the
  counted-reference total when an owning handle ends. What the object model does with
  an object whose total reaches zero is not part of this model.
\<close>

definition decRef :: "addr \<Rightarrow> refcounts \<Rightarrow> refcounts" where
  "decRef p rc = rc(p := rc p - 1)"

subsection \<open>Errors\<close>

datatype error_id = kCheckTypeFailedError | kWrongArgumentCountError

text \<open>
  \<^verbatim>\<open>throwError<ArgumentError>(id, ...)\<close> is the value \<open>ArgumentError id [...]\<close>, with the
  message parameters in the order of the call. \<open>InvalidRead\<close> stands for what C++ leaves
  undefined: reading \<^verbatim>\<open>args[0]\<close> when the pointer is past the end of the array.
\<close>

datatype error = ArgumentError error_id "string list" | InvalidRead

subsection \<open>The collaborators outside this file\<close>

text \<open>
  The functions of \<^verbatim>\<open>asAtomHandler\<close>, \<^verbatim>\<open>ASObject\<close>, \<^verbatim>\<open>Class<T>\<close> and \<^verbatim>\<open>RGB\<close> that the
  conversions call are declared outside src/. They are parameters of the model:
  a \<open>runtime\<close> gives each of them as a function of its arguments (none of them is
  taken to change a reference count), and every theorem holds for every runtime.
  \<^item> \<open>is_a T a\<close> is \<^verbatim>\<open>asAtomHandler::is<T>(a)\<close>;
  \<^item> \<open>toObject a\<close> is \<^verbatim>\<open>asAtomHandler::toObject(a,wrk)\<close>;
  \<^item> \<open>getClassName p\<close> is \<^verbatim>\<open>p->getClassName()\<close>;
  \<^item> \<open>getQualifiedClassName T\<close> is
    \<^verbatim>\<open>Class<T>::getClass(wrk->getSystemState())->getQualifiedClassName()\<close>;
  \<^item> \<open>checkArgumentConversion v a\<close> is \<^verbatim>\<open>asAtomHandler::checkArgumentConversion(v,a)\<close>;
  \<^item> \<open>toNumber\<close>, \<open>Boolean_concrete\<close>, \<open>toUInt\<close>, \<open>toInt\<close>, \<open>toInt64\<close> and \<open>toString\<close> are
    the scalar conversions of \<^verbatim>\<open>asAtomHandler\<close>;
  \<^item> \<open>RGB_of_uint\<close> is the constructor \<^verbatim>\<open>RGB(uint32_t)\<close>.
\<close>

record runtime =
  is_a :: "class_id \<Rightarrow> asAtom \<Rightarrow> bool"
  toObject :: "asAtom \<Rightarrow> addr"
  getClassName :: "addr \<Rightarrow> string"
  getQualifiedClassName :: "class_id \<Rightarrow> string"
  checkArgumentConversion :: "asAtom \<Rightarrow> asAtom \<Rightarrow> bool"
  toNumber :: "asAtom \<Rightarrow> number_t"
  Boolean_concrete :: "asAtom \<Rightarrow> bool"
  toUInt :: "asAtom \<Rightarrow> 32 word"
  toInt :: "asAtom \<Rightarrow> 32 word"
  toInt64 :: "asAtom \<Rightarrow> 64 word"
  toString :: "asAtom \<Rightarrow> tiny_string"
  RGB_of_uint :: "32 word \<Rightarrow> RGB"

subsection \<open>ArgumentConversionAtom: toConcrete\<close>

text \<open>
  A reference conversion returns the converted value or the error thrown, and the
  reference counts as they are when it returns or throws. The last argument of each
  \<^verbatim>\<open>toConcrete\<close> is the current value of the variable being assigned.
\<close>

type_synonym 'a conv = "(error + 'a) \<times> refcounts"

text \<open>\<^verbatim>\<open>ArgumentConversionAtom<asAtom>::toConcrete\<close>\<close>

definition asAtom_toConcrete ::
    "runtime \<Rightarrow> refcounts \<Rightarrow> asAtom \<Rightarrow> asAtom \<Rightarrow> asAtom conv" where
  "asAtom_toConcrete R rc obj v =
     (if isNull obj then (Inr nullAtom, rc)
      else if isUndefined obj then (Inr undefinedAtom, rc)
      else if isValid v \<and> \<not> isNull v \<and> \<not> isUndefined v
                \<and> \<not> checkArgumentConversion R v obj
        then (Inl (ArgumentError kCheckTypeFailedError
                     [getClassName R (toObject R obj), ''?'']), rc)
      else (Inr obj, ASATOM_INCREF obj rc))"

text \<open>\<^verbatim>\<open>ArgumentConversionAtom<Ref<T>>::toConcrete\<close>; a \<^verbatim>\<open>Ref<T>\<close> is the address it holds.\<close>

definition Ref_toConcrete ::
    "runtime \<Rightarrow> refcounts \<Rightarrow> class_id \<Rightarrow> asAtom \<Rightarrow> addr \<Rightarrow> addr conv" where
  "Ref_toConcrete R rc T obj v =
     (if \<not> is_a R T obj
        then (Inl (ArgumentError kCheckTypeFailedError
                     [getClassName R (toObject R obj), getQualifiedClassName R T]), rc)
      else (Inr (toObject R obj), incRef (toObject R obj) rc))"

text \<open>
  \<^verbatim>\<open>ArgumentConversionAtom<NullableRef<T>>::toConcrete\<close>; a \<^verbatim>\<open>NullableRef<T>\<close> is
  \<open>None\<close> when it is \<^verbatim>\<open>NullRef\<close> and \<open>Some p\<close> when it holds the address \<open>p\<close>.
\<close>

definition NullableRef_toConcrete ::
    "runtime \<Rightarrow> refcounts \<Rightarrow> class_id \<Rightarrow> asAtom \<Rightarrow> addr option \<Rightarrow> addr option conv" where
  "NullableRef_toConcrete R rc T obj v =
     (if isNull obj then (Inr None, rc)
      else if isUndefined obj then (Inr None, rc)
      else if \<not> is_a R T obj
        then (Inl (ArgumentError kCheckTypeFailedError
                     [getClassName R (toObject R obj), getQualifiedClassName R T]), rc)
      else (Inr (Some (toObject R obj)), incRef (toObject R obj) rc))"

text \<open>\<^verbatim>\<open>ArgumentConversionAtom<NullableRef<ASObject>>::toConcrete\<close>, the explicit specialisation.\<close>

definition NullableRef_ASObject_toConcrete ::
    "runtime \<Rightarrow> refcounts \<Rightarrow> asAtom \<Rightarrow> addr option \<Rightarrow> addr option conv" where
  "NullableRef_ASObject_toConcrete R rc obj v =
     (Inr (Some (toObject R obj)), incRef (toObject R obj) rc)"

text \<open>The scalar specialisations of \<^verbatim>\<open>toConcrete\<close>.\<close>

definition number_t_toConcrete :: "runtime \<Rightarrow> asAtom \<Rightarrow> number_t \<Rightarrow> number_t" where
  "number_t_toConcrete R obj v = toNumber R obj"

definition bool_toConcrete :: "runtime \<Rightarrow> asAtom \<Rightarrow> bool \<Rightarrow> bool" where
  "bool_toConcrete R obj v = Boolean_concrete R obj"

definition uint32_t_toConcrete :: "runtime \<Rightarrow> asAtom \<Rightarrow> 32 word \<Rightarrow> 32 word" where
  "uint32_t_toConcrete R obj v = toUInt R obj"

definition int32_t_toConcrete :: "runtime \<Rightarrow> asAtom \<Rightarrow> 32 word \<Rightarrow> 32 word" where
  "int32_t_toConcrete R obj v = toInt R obj"

definition int64_t_toConcrete :: "runtime \<Rightarrow> asAtom \<Rightarrow> 64 word \<Rightarrow> 64 word" where
  "int64_t_toConcrete R obj v = toInt64 R obj"

definition tiny_string_toConcrete :: "runtime \<Rightarrow> asAtom \<Rightarrow> tiny_string \<Rightarrow> tiny_string" where
  "tiny_string_toConcrete R obj v = toString R obj"

definition RGB_toConcrete :: "runtime \<Rightarrow> asAtom \<Rightarrow> RGB \<Rightarrow> RGB" where
  "RGB_toConcrete R obj v = RGB_of_uint R (toUInt R obj)"

subsection \<open>ArgumentConversionAtom: toAbstract for the reference types\<close>

text \<open>
  Each returns the dynamic value written to \<^verbatim>\<open>ret\<close> and the reference counts. The
  scalar specialisations of \<^verbatim>\<open>toAbstract\<close> only call setters declared outside src/ and
  are left out.
\<close>

definition asAtom_toAbstract :: "refcounts \<Rightarrow> asAtom \<Rightarrow> asAtom \<times> refcounts" where
  "asAtom_toAbstract rc val =
     (if isInvalid val then (Atom_Null, rc)
      else (val, ASATOM_INCREF val rc))"

definition Ref_toAbstract :: "refcounts \<Rightarrow> addr \<Rightarrow> asAtom \<times> refcounts" where
  "Ref_toAbstract rc val = (fromObject val, incRef val rc)"

definition NullableRef_toAbstract :: "refcounts \<Rightarrow> addr option \<Rightarrow> asAtom \<times> refcounts" where
  "NullableRef_toAbstract rc val =
     (case val of
        None \<Rightarrow> (Atom_Null, rc)
      | Some p \<Rightarrow> (fromObject p, incRef p rc))"

definition NullableRef_ASObject_toAbstract ::
    "refcounts \<Rightarrow> addr option \<Rightarrow> asAtom \<times> refcounts" where
  "NullableRef_ASObject_toAbstract rc val =
     (case val of
        None \<Rightarrow> (Atom_Null, rc)
      | Some p \<Rightarrow> (fromObject p, incRef p rc))"

subsection \<open>Native variables and the choice of the specialisation\<close>

text \<open>
  A native variable holds a value of its static type; the constructor is that type.
  \<open>toConcrete\<close> picks the specialisation of \<^verbatim>\<open>ArgumentConversionAtom<T>\<close> from the type
  of the variable, as template instantiation does at \<^verbatim>\<open>operator()(T& v)\<close>; the explicit
  specialisation for \<^verbatim>\<open>NullableRef<ASObject>\<close> is taken when \<open>T\<close> is \<open>ASObject\<close>.
\<close>

datatype native =
    N_asAtom asAtom
  | N_Ref class_id addr
  | N_NullableRef class_id "addr option"
  | N_number_t number_t
  | N_bool bool
  | N_uint32_t "32 word"
  | N_int32_t "32 word"
  | N_int64_t "64 word"
  | N_tiny_string tiny_string
  | N_RGB RGB

definition ASObject :: class_id where
  "ASObject = ''ASObject''"

text \<open>
  Modelled from the spec: the handle classes \<^verbatim>\<open>Ref<T>\<close> and \<^verbatim>\<open>NullableRef<T>\<close> (outside
  src/) are owning handles: a handle that holds an object owns one counted reference to
  it. Copying a handle takes one more reference for the copy (\<open>retain\<close>); the end of a
  handle value, by destruction or by being overwritten in an assignment, gives its
  reference back (\<open>release\<close>). \<open>held v\<close> is the object a native value owns a reference
  to: a scalar owns none, and neither does an \<^verbatim>\<open>asAtom\<close>, which is copied as plain data.
\<close>

fun held :: "native \<Rightarrow> addr option" where
  "held (N_Ref T p) = Some p"
| "held (N_NullableRef T h) = h"
| "held v = None"

definition retain :: "native \<Rightarrow> refcounts \<Rightarrow> refcounts" where
  "retain v rc = (case held v of None \<Rightarrow> rc | Some p \<Rightarrow> incRef p rc)"

definition release :: "native \<Rightarrow> refcounts \<Rightarrow> refcounts" where
  "release v rc = (case held v of None \<Rightarrow> rc | Some p \<Rightarrow> decRef p rc)"

definition wrap :: "('a \<Rightarrow> native) \<Rightarrow> 'a conv \<Rightarrow> native conv" where
  "wrap c r = (case r of (Inl e, rc) \<Rightarrow> (Inl e, rc) | (Inr x, rc) \<Rightarrow> (Inr (c x), rc))"

fun toConcrete :: "runtime \<Rightarrow> refcounts \<Rightarrow> asAtom \<Rightarrow> native \<Rightarrow> native conv" where
  "toConcrete R rc obj (N_asAtom v) = wrap N_asAtom (asAtom_toConcrete R rc obj v)"
| "toConcrete R rc obj (N_Ref T v) = wrap (N_Ref T) (Ref_toConcrete R rc T obj v)"
| "toConcrete R rc obj (N_NullableRef T v) =
     (if T = ASObject then wrap (N_NullableRef T) (NullableRef_ASObject_toConcrete R rc obj v)
      else wrap (N_NullableRef T) (NullableRef_toConcrete R rc T obj v))"
| "toConcrete R rc obj (N_number_t v) = (Inr (N_number_t (number_t_toConcrete R obj v)), rc)"
| "toConcrete R rc obj (N_bool v) = (Inr (N_bool (bool_toConcrete R obj v)), rc)"
| "toConcrete R rc obj (N_uint32_t v) = (Inr (N_uint32_t (uint32_t_toConcrete R obj v)), rc)"
| "toConcrete R rc obj (N_int32_t v) = (Inr (N_int32_t (int32_t_toConcrete R obj v)), rc)"
| "toConcrete R rc obj (N_int64_t v) = (Inr (N_int64_t (int64_t_toConcrete R obj v)), rc)"
| "toConcrete R rc obj (N_tiny_string v) =
     (Inr (N_tiny_string (tiny_string_toConcrete R obj v)), rc)"
| "toConcrete R rc obj (N_RGB v) = (Inr (N_RGB (RGB_toConcrete R obj v)), rc)"

subsection \<open>ArgUnpackAtom\<close>

type_synonym vname = string

datatype LOG_LEVEL = LOG_NOT_IMPLEMENTED

text \<open>
  What the unpacker reads and writes outside itself: the reference counts (reached
  through \<^verbatim>\<open>wrk\<close>), the caller's native variables (reached through the \<^verbatim>\<open>T&\<close> parameters)
  and the diagnostic sink that \<^verbatim>\<open>LOG\<close> writes to.

  An assignment to a variable stores the value and, for a handle, moves references.
  In \<^verbatim>\<open>v = toConcrete(...)\<close> the right side is a temporary that owns the reference the
  conversion took: when the statement ends the variable owns that reference, and the
  handle the variable held before has been released. In \<^verbatim>\<open>v = defvalue\<close> the default
  stays the caller's: the variable takes a reference of its own to the object of the
  default (retained first), and the handle the variable held before is released.
\<close>

record world =
  ref_count :: refcounts
  locals :: "vname \<Rightarrow> native"
  logged :: "(LOG_LEVEL \<times> string) list"

text \<open>
  The members of the class; \<^verbatim>\<open>wrk\<close> is the worker through which the world below is
  reached. The pointer \<^verbatim>\<open>asAtom* args\<close> is the array it points into (\<open>args_array\<close>) and
  the index of the cell it points to (\<open>args\<close>), so \<^verbatim>\<open>args++\<close> adds one to the index and
  \<^verbatim>\<open>args[0]\<close> reads the cell at the index. \<open>argslen\<close> is a C++ \<^verbatim>\<open>int\<close>, here an
  integer: \<^verbatim>\<open>argslen--\<close> runs only when \<open>argslen\<close> is not zero, and cannot overflow
  from a count of arguments, which is never negative. The member \<^verbatim>\<open>moreAllowed\<close> exists
  only when the file is compiled without \<^verbatim>\<open>NDEBUG\<close>: it is \<open>None\<close> in a build with
  \<^verbatim>\<open>NDEBUG\<close>.
\<close>

record ArgUnpackAtom =
  args_array :: "asAtom list"
  args :: nat
  argslen :: int
  moreAllowed :: "bool option"

text \<open>
  The two constructors (without and with \<^verbatim>\<open>NDEBUG\<close>) and the two macros; the first
  argument of a macro tells whether \<^verbatim>\<open>NDEBUG\<close> is defined. The macros pass the
  implicit \<^verbatim>\<open>args\<close> and \<^verbatim>\<open>argslen\<close> of the native function: the pointer is at the start
  of the array.
\<close>

definition ArgUnpackAtom_debug :: "asAtom list \<Rightarrow> int \<Rightarrow> bool \<Rightarrow> ArgUnpackAtom" where
  "ArgUnpackAtom_debug a n m =
     \<lparr>args_array = a, args = 0, argslen = n, moreAllowed = Some m\<rparr>"

definition ArgUnpackAtom_ndebug :: "asAtom list \<Rightarrow> int \<Rightarrow> ArgUnpackAtom" where
  "ArgUnpackAtom_ndebug a n =
     \<lparr>args_array = a, args = 0, argslen = n, moreAllowed = None\<rparr>"

definition ARG_UNPACK_ATOM :: "bool \<Rightarrow> asAtom list \<Rightarrow> int \<Rightarrow> ArgUnpackAtom" where
  "ARG_UNPACK_ATOM ndebug a n =
     (if \<not> ndebug then ArgUnpackAtom_debug a n False else ArgUnpackAtom_ndebug a n)"

definition ARG_UNPACK_ATOM_MORE_ALLOWED :: "bool \<Rightarrow> asAtom list \<Rightarrow> int \<Rightarrow> ArgUnpackAtom" where
  "ARG_UNPACK_ATOM_MORE_ALLOWED ndebug a n =
     (if \<not> ndebug then ArgUnpackAtom_debug a n True else ArgUnpackAtom_ndebug a n)"

text \<open>
  The result of applying a slot: the error thrown, if any, and the unpacker and the
  world as they are at the return or at the throw.
\<close>

type_synonym outcome = "error option \<times> ArgUnpackAtom \<times> world"

text \<open>\<^verbatim>\<open>operator()(T& v)\<close>, with \<open>x\<close> the variable that \<^verbatim>\<open>v\<close> refers to.\<close>

definition operator_call :: "runtime \<Rightarrow> vname \<Rightarrow> ArgUnpackAtom \<Rightarrow> world \<Rightarrow> outcome" where
  "operator_call R x u w =
     (if argslen u = 0
        then (Some (ArgumentError kWrongArgumentCountError [''object'', ''?'', ''?'']), u, w)
      else if length (args_array u) \<le> args u then (Some InvalidRead, u, w)
      else (case toConcrete R (ref_count w) (args_array u ! args u) (locals w x) of
              (Inl e, rc) \<Rightarrow> (Some e, u, w\<lparr>ref_count := rc\<rparr>)
            | (Inr v, rc) \<Rightarrow>
                (None,
                 u\<lparr>args := args u + 1, argslen := argslen u - 1\<rparr>,
                 w\<lparr>ref_count := release (locals w x) rc, locals := (locals w)(x := v)\<rparr>)))"

text \<open>
  \<^verbatim>\<open>operator()(T& v, const TD& defvalue)\<close>; \<open>d\<close> is \<^verbatim>\<open>defvalue\<close> as a value of the type of
  the variable, which is what the assignment \<^verbatim>\<open>v = defvalue\<close> stores.
\<close>

definition operator_call_default ::
    "runtime \<Rightarrow> vname \<Rightarrow> native \<Rightarrow> ArgUnpackAtom \<Rightarrow> world \<Rightarrow> outcome" where
  "operator_call_default R x d u w =
     (if argslen u > 0
        then (if length (args_array u) \<le> args u then (Some InvalidRead, u, w)
              else (case toConcrete R (ref_count w) (args_array u ! args u) (locals w x) of
                      (Inl e, rc) \<Rightarrow> (Some e, u, w\<lparr>ref_count := rc\<rparr>)
                    | (Inr v, rc) \<Rightarrow>
                        (None,
                         u\<lparr>args := args u + 1, argslen := argslen u - 1\<rparr>,
                         w\<lparr>ref_count := release (locals w x) rc,
                           locals := (locals w)(x := v)\<rparr>)))
      else (None, u,
            w\<lparr>ref_count := release (locals w x) (retain d (ref_count w)),
              locals := (locals w)(x := d)\<rparr>))"

text \<open>
  \<^verbatim>\<open>~ArgUnpackAtom()\<close>. The destructor is compiled only without \<^verbatim>\<open>NDEBUG\<close>; with
  \<^verbatim>\<open>NDEBUG\<close> destruction does nothing.
\<close>

definition LOG :: "LOG_LEVEL \<Rightarrow> string \<Rightarrow> world \<Rightarrow> world" where
  "LOG l msg w = w\<lparr>logged := logged w @ [(l, msg)]\<rparr>"

definition destructor :: "ArgUnpackAtom \<Rightarrow> world \<Rightarrow> world" where
  "destructor u w =
     (case moreAllowed u of
        None \<Rightarrow> w
      | Some m \<Rightarrow>
          (if argslen u > 0 \<and> \<not> m
             then LOG LOG_NOT_IMPLEMENTED ''Not all arguments were unpacked'' w
           else w))"

text \<open>
  A call site chains the slots, \<^verbatim>\<open>ARG_UNPACK_ATOM (a) (b,d) ...\<close>: each call returns
  \<^verbatim>\<open>*this\<close> for the next, and a throw leaves the chain. \<open>unpack\<close> runs the slots of a
  call site from left to right.
\<close>

datatype slot = Required vname | Defaulted vname native

fun slot_var :: "slot \<Rightarrow> vname" where
  "slot_var (Required x) = x"
| "slot_var (Defaulted x d) = x"

fun apply_slot :: "runtime \<Rightarrow> slot \<Rightarrow> ArgUnpackAtom \<Rightarrow> world \<Rightarrow> outcome" where
  "apply_slot R (Required x) u w = operator_call R x u w"
| "apply_slot R (Defaulted x d) u w = operator_call_default R x d u w"

fun unpack :: "runtime \<Rightarrow> slot list \<Rightarrow> ArgUnpackAtom \<Rightarrow> world \<Rightarrow> outcome" where
  "unpack R [] u w = (None, u, w)"
| "unpack R (s # ss) u w =
     (case apply_slot R s u w of
        (Some e, u', w') \<Rightarrow> (Some e, u', w')
      | (None, u', w') \<Rightarrow> unpack R ss u' w')"

subsection \<open>A small runtime and world for running the model\<close>

text \<open>
  The functions of \<open>example_runtime\<close> are stand-ins with which the model is evaluated
  on concrete inputs: the null object is at address 0, the undefined object at 1, a
  boxed primitive at 2, and the object at address 10 is a \<open>Sprite\<close>; every value is an
  \<open>ASObject\<close>, and only the object at 10 is a \<open>Sprite\<close>.
\<close>

definition example_runtime :: runtime where
  "example_runtime =
     \<lparr>is_a = (\<lambda>T a. T = ''ASObject'' \<or>
                 (case a of Atom_ObjectRef p \<Rightarrow> p = 10 \<and> T = ''Sprite'' | _ \<Rightarrow> False)),
      toObject = (\<lambda>a. case a of
                 Atom_ObjectRef p \<Rightarrow> p
               | Atom_Null \<Rightarrow> 0
               | Atom_Undefined \<Rightarrow> 1
               | _ \<Rightarrow> 2),
      getClassName = (\<lambda>p. if p = 0 then ''null'' else if p = 1 then ''void''
                       else if p = 10 then ''Sprite'' else ''Object''),
      getQualifiedClassName = (\<lambda>T. ''flash.display::'' @ T),
      checkArgumentConversion = (\<lambda>v a. case (v, a) of
                 (Atom_ObjectRef p, Atom_ObjectRef q) \<Rightarrow> True
               | _ \<Rightarrow> False),
      toNumber = (\<lambda>a. case a of Atom_Number d \<Rightarrow> d | _ \<Rightarrow> 0),
      Boolean_concrete = (\<lambda>a. case a of
                 Atom_Boolean b \<Rightarrow> b
               | Atom_String s \<Rightarrow> s \<noteq> []
               | _ \<Rightarrow> False),
      toUInt = (\<lambda>a. case a of
                 Atom_Integer i \<Rightarrow> i
               | Atom_UnsignedInteger i \<Rightarrow> i
               | _ \<Rightarrow> 0),
      toInt = (\<lambda>a. case a of
                 Atom_Integer i \<Rightarrow> i
               | Atom_UnsignedInteger i \<Rightarrow> i
               | _ \<Rightarrow> 0),
      toInt64 = (\<lambda>a. case a of
                 Atom_Integer i \<Rightarrow> scast i
               | Atom_UnsignedInteger i \<Rightarrow> ucast i
               | _ \<Rightarrow> 0),
      toString = (\<lambda>a. case a of Atom_String s \<Rightarrow> s | _ \<Rightarrow> ''''),
      RGB_of_uint = (\<lambda>c. (ucast (drop_bit 16 c), ucast (drop_bit 8 c), ucast c))\<rparr>"

definition example_world :: world where
  "example_world =
     \<lparr>ref_count = (\<lambda>p. 1),
      locals = (\<lambda>x. if x = ''i'' then N_int32_t 0
                     else if x = ''b'' then N_bool False
                     else if x = ''s'' then N_Ref ''Sprite'' 10
                     else if x = ''o'' then N_NullableRef ''Sprite'' None
                     else N_asAtom Atom_Invalid),
      logged = []\<rparr>"

text \<open>
  \<open>holding_world\<close> is \<open>example_world\<close> with the variable \<open>o\<close> holding a handle to the
  object at 10, whose count is 2: one reference is the variable's.
\<close>

definition holding_world :: world where
  "holding_world =
     example_world\<lparr>ref_count := (ref_count example_world)(10 := 2),
                   locals := (locals example_world)(''o'' := N_NullableRef ''Sprite'' (Some 10))\<rparr>"

section \<open>Properties\<close>

subsection \<open>Facts about the conversions and the slots\<close>

lemma toConcrete_throw_keeps_counts:
  "toConcrete R rc obj v = (Inl e, rc') \<Longrightarrow> rc' = rc"
  by (cases v)
     (auto simp: wrap_def asAtom_toConcrete_def Ref_toConcrete_def NullableRef_toConcrete_def
                 NullableRef_ASObject_toConcrete_def split: if_splits)

lemma operator_call_throw_keeps_state:
  "operator_call R x u w = (Some e, u', w') \<Longrightarrow> u' = u \<and> w' = w"
  by (auto simp: operator_call_def split: if_splits prod.splits sum.splits
           dest: toConcrete_throw_keeps_counts)

lemma operator_call_default_throw_keeps_state:
  "operator_call_default R x d u w = (Some e, u', w') \<Longrightarrow> u' = u \<and> w' = w"
  by (auto simp: operator_call_default_def split: if_splits prod.splits sum.splits
           dest: toConcrete_throw_keeps_counts)

lemma apply_slot_throw_keeps_state:
  "apply_slot R s u w = (Some e, u', w') \<Longrightarrow> u' = u \<and> w' = w"
  by (cases s)
     (auto dest: operator_call_throw_keeps_state operator_call_default_throw_keeps_state)

lemma apply_slot_other_locals:
  "apply_slot R s u w = (r, u', w') \<Longrightarrow> y \<noteq> slot_var s \<Longrightarrow> locals w' y = locals w y"
  by (cases s)
     (auto simp: operator_call_def operator_call_default_def
           split: if_splits prod.splits sum.splits)

lemma apply_slot_keeps_mode:
  "apply_slot R s u w = (r, u', w') \<Longrightarrow>
     moreAllowed u' = moreAllowed u \<and> args_array u' = args_array u"
  by (cases s)
     (auto simp: operator_call_def operator_call_default_def
           split: if_splits prod.splits sum.splits)

lemma unpack_other_locals:
  "unpack R ss u w = (r, u', w') \<Longrightarrow> y \<notin> slot_var ` set ss \<Longrightarrow> locals w' y = locals w y"
proof (induction ss arbitrary: u w)
  case Nil
  then show ?case by simp
next
  case (Cons s ss)
  obtain r1 u1 w1 where step: "apply_slot R s u w = (r1, u1, w1)"
    by (cases "apply_slot R s u w") auto
  from Cons.prems(2) have ys: "y \<noteq> slot_var s" and yss: "y \<notin> slot_var ` set ss"
    by auto
  have first: "locals w1 y = locals w y"
    using apply_slot_other_locals [OF step ys] .
  show ?case
  proof (cases r1)
    case None
    with step Cons.prems(1) have "unpack R ss u1 w1 = (r, u', w')"
      by simp
    from Cons.IH [OF this yss] first show ?thesis
      by simp
  next
    case (Some e)
    with step Cons.prems(1) have "w' = w1"
      by simp
    with first show ?thesis
      by simp
  qed
qed

lemma unpack_keeps_mode:
  "unpack R ss u w = (r, u', w') \<Longrightarrow>
     moreAllowed u' = moreAllowed u \<and> args_array u' = args_array u"
proof (induction ss arbitrary: u w)
  case Nil
  then show ?case by simp
next
  case (Cons s ss)
  obtain r1 u1 w1 where step: "apply_slot R s u w = (r1, u1, w1)"
    by (cases "apply_slot R s u w") auto
  note first = apply_slot_keeps_mode [OF step]
  show ?case
  proof (cases r1)
    case None
    with step Cons.prems have "unpack R ss u1 w1 = (r, u', w')"
      by simp
    from Cons.IH [OF this] first show ?thesis
      by simp
  next
    case (Some e)
    with step Cons.prems have "u' = u1"
      by simp
    with first show ?thesis
      by simp
  qed
qed

lemma unpack_throw_at:
  "unpack R ss u w = (Some e, u', w') \<Longrightarrow>
     \<exists>k<length ss. unpack R (take k ss) u w = (None, u', w')
                  \<and> apply_slot R (ss ! k) u' w' = (Some e, u', w')"
proof (induction ss arbitrary: u w)
  case Nil
  then show ?case by simp
next
  case (Cons s ss)
  obtain r1 u1 w1 where step: "apply_slot R s u w = (r1, u1, w1)"
    by (cases "apply_slot R s u w") auto
  show ?case
  proof (cases r1)
    case None
    with step Cons.prems have "unpack R ss u1 w1 = (Some e, u', w')"
      by simp
    from Cons.IH [OF this] obtain k where k: "k < length ss"
      and pre: "unpack R (take k ss) u1 w1 = (None, u', w')"
      and at: "apply_slot R (ss ! k) u' w' = (Some e, u', w')"
      by blast
    from step None pre have "unpack R (take (Suc k) (s # ss)) u w = (None, u', w')"
      by simp
    moreover from at have "apply_slot R ((s # ss) ! Suc k) u' w' = (Some e, u', w')"
      by simp
    moreover from k have "Suc k < length (s # ss)"
      by simp
    ultimately show ?thesis
      by blast
  next
    case (Some e1)
    with step Cons.prems have same: "e1 = e" "u1 = u'" "w1 = w'"
      by simp_all
    from step Some same have thrown: "apply_slot R s u w = (Some e, u', w')"
      by simp
    from apply_slot_throw_keeps_state [OF thrown] have "u' = u" "w' = w"
      by simp_all
    with thrown have "unpack R (take 0 (s # ss)) u w = (None, u', w')"
      and "apply_slot R ((s # ss) ! 0) u' w' = (Some e, u', w')"
      by simp_all
    then show ?thesis
      by (intro exI [of _ 0]) simp
  qed
qed

lemma unpack_append:
  "unpack R (ps @ qs) u w =
     (case unpack R ps u w of
        (Some e, u', w') \<Rightarrow> (Some e, u', w')
      | (None, u', w') \<Rightarrow> unpack R qs u' w')"
  by (induction ps arbitrary: u w) (auto split: prod.splits option.splits)

lemma unpack_from_slot:
  assumes k: "k < length ss"
    and pre: "unpack R (take k ss) u w = (None, u1, w1)"
  shows "unpack R ss u w =
     (case apply_slot R (ss ! k) u1 w1 of
        (Some e, u', w') \<Rightarrow> (Some e, u', w')
      | (None, u', w') \<Rightarrow> unpack R (drop (Suc k) ss) u' w')"
proof -
  from k have "ss = take k ss @ (ss ! k # drop (Suc k) ss)"
    by (simp add: id_take_nth_drop)
  then have "unpack R ss u w = unpack R (take k ss @ (ss ! k # drop (Suc k) ss)) u w"
    by simp
  also have "\<dots> = unpack R (ss ! k # drop (Suc k) ss) u1 w1"
    using pre by (simp add: unpack_append)
  finally show ?thesis
    by simp
qed

lemma unpack_throws_at_slot:
  assumes k: "k < length ss"
    and pre: "unpack R (take k ss) u w = (None, u1, w1)"
    and at: "apply_slot R (ss ! k) u1 w1 = (Some e, u2, w2)"
  shows "unpack R ss u w = (Some e, u1, w1)"
proof -
  from apply_slot_throw_keeps_state [OF at] have "u2 = u1" "w2 = w1"
    by simp_all
  with at unpack_from_slot [OF k pre] show ?thesis
    by simp
qed

lemma unpack_keeps_written:
  assumes i: "i < length ss"
    and pre: "unpack R (take i ss) u w = (None, ui, wi)"
    and at: "apply_slot R (ss ! i) ui wi = (None, ui', wi')"
    and later: "slot_var (ss ! i) \<notin> slot_var ` set (drop (Suc i) ss)"
    and all: "unpack R ss u w = (r, u_end, w_end)"
  shows "locals w_end (slot_var (ss ! i)) = locals wi' (slot_var (ss ! i))"
proof -
  from at unpack_from_slot [OF i pre] all
  have "unpack R (drop (Suc i) ss) ui' wi' = (r, u_end, w_end)"
    by simp
  from unpack_other_locals [OF this later] show ?thesis .
qed

subsection \<open>Facts about the example runtime and world\<close>

lemma example_locals:
  "locals example_world ''i'' = N_int32_t 0"
  "locals example_world ''b'' = N_bool False"
  "locals example_world ''s'' = N_Ref ''Sprite'' 10"
  "locals example_world ''o'' = N_NullableRef ''Sprite'' None"
  "locals example_world ''a'' = N_asAtom Atom_Invalid"
  by (simp_all add: example_world_def)

lemma example_ref_count: "ref_count example_world p = 1"
  by (simp add: example_world_def)

lemma example_logged: "logged example_world = []"
  by (simp add: example_world_def)

lemma example_is_a:
  "is_a example_runtime T (Atom_ObjectRef p) = (T = ''ASObject'' \<or> (p = 10 \<and> T = ''Sprite''))"
  "is_a example_runtime T Atom_Null = (T = ''ASObject'')"
  "is_a example_runtime T Atom_Undefined = (T = ''ASObject'')"
  "is_a example_runtime T (Atom_Integer n) = (T = ''ASObject'')"
  by (simp_all add: example_runtime_def)

lemma example_toObject:
  "toObject example_runtime (Atom_ObjectRef p) = p"
  "toObject example_runtime Atom_Null = 0"
  "toObject example_runtime Atom_Undefined = 1"
  "toObject example_runtime (Atom_Integer n) = 2"
  by (simp_all add: example_runtime_def)

lemma example_names:
  "getClassName example_runtime p =
     (if p = 0 then ''null'' else if p = 1 then ''void''
      else if p = 10 then ''Sprite'' else ''Object'')"
  "getQualifiedClassName example_runtime T = ''flash.display::'' @ T"
  by (simp_all add: example_runtime_def)

lemma example_check:
  "checkArgumentConversion example_runtime (Atom_ObjectRef p) (Atom_ObjectRef q) = True"
  "checkArgumentConversion example_runtime (Atom_Integer n) a = False"
  by (simp_all add: example_runtime_def)

lemma example_scalars:
  "toInt example_runtime (Atom_Integer n) = n"
  "toUInt example_runtime (Atom_UnsignedInteger n) = n"
  "Boolean_concrete example_runtime (Atom_Boolean b) = b"
  "Boolean_concrete example_runtime (Atom_String s) = (s \<noteq> [])"
  "toString example_runtime (Atom_String s) = s"
  "toNumber example_runtime (Atom_Number d) = d"
  "toInt64 example_runtime (Atom_Integer n) = scast n"
  by (simp_all add: example_runtime_def)

lemma holding_locals:
  "locals holding_world ''o'' = N_NullableRef ''Sprite'' (Some 10)"
  "locals holding_world ''i'' = N_int32_t 0"
  by (simp_all add: holding_world_def example_world_def)

lemma holding_ref_count: "ref_count holding_world p = (if p = 10 then 2 else 1)"
  by (simp add: holding_world_def example_world_def)

subsection \<open>The required slot\<close>

text \<open>
  C1. A required slot applied when \<open>argslen\<close> is zero throws the wrong-argument-count
  error and changes nothing: neither the unpacker nor the world, so no conversion has
  run. When at least one argument remains (and the cursor is inside the array), it
  runs \<open>toConcrete\<close> of the variable's type on the argument under the cursor: if that
  returns \<open>v\<close>, the variable holds \<open>v\<close>, the cursor is one further and \<open>argslen\<close> one
  less, and the reference counts are those the conversion left, less the reference of
  the handle the variable held before; if that throws, the same error leaves the slot
  and nothing has changed.
\<close>

theorem required_slot:
  "(argslen u = 0 \<longrightarrow>
      operator_call R x u w
        = (Some (ArgumentError kWrongArgumentCountError [''object'', ''?'', ''?'']), u, w))
   \<and> (0 < argslen u \<and> args u < length (args_array u)
        \<and> toConcrete R (ref_count w) (args_array u ! args u) (locals w x) = (Inr v, rc) \<longrightarrow>
      operator_call R x u w
        = (None,
           u\<lparr>args := args u + 1, argslen := argslen u - 1\<rparr>,
           w\<lparr>ref_count := release (locals w x) rc, locals := (locals w)(x := v)\<rparr>))
   \<and> (0 < argslen u \<and> args u < length (args_array u)
        \<and> toConcrete R (ref_count w) (args_array u ! args u) (locals w x) = (Inl e, rc) \<longrightarrow>
      operator_call R x u w = (Some e, u, w))
   \<and> release (locals w x) rc
        = (case held (locals w x) of None \<Rightarrow> rc | Some p \<Rightarrow> rc(p := rc p - 1))"
  by (auto simp: operator_call_def release_def decRef_def split: option.splits
           dest: toConcrete_throw_keeps_counts)

theorem required_slot_witness:
  "argslen (ARG_UNPACK_ATOM False [] 0) = 0
   \<and> operator_call example_runtime ''i'' (ARG_UNPACK_ATOM False [] 0) example_world
       = (Some (ArgumentError kWrongArgumentCountError [''object'', ''?'', ''?'']),
          ARG_UNPACK_ATOM False [] 0, example_world)
   \<and> toConcrete example_runtime (ref_count example_world) (Atom_Integer 42)
         (locals example_world ''i'') = (Inr (N_int32_t 42), ref_count example_world)
   \<and> operator_call example_runtime ''i'' (ARG_UNPACK_ATOM False [Atom_Integer 42] 1) example_world
       = (None,
          \<lparr>args_array = [Atom_Integer 42], args = 1, argslen = 0, moreAllowed = Some False\<rparr>,
          example_world\<lparr>ref_count := ref_count example_world,
                        locals := (locals example_world)(''i'' := N_int32_t 42)\<rparr>)
   \<and> toConcrete example_runtime (ref_count example_world) (Atom_Integer 42)
         (locals example_world ''s'')
       = (Inl (ArgumentError kCheckTypeFailedError [''Object'', ''flash.display::Sprite'']),
          ref_count example_world)
   \<and> operator_call example_runtime ''s'' (ARG_UNPACK_ATOM False [Atom_Integer 42] 1) example_world
       = (Some (ArgumentError kCheckTypeFailedError [''Object'', ''flash.display::Sprite'']),
          ARG_UNPACK_ATOM False [Atom_Integer 42] 1, example_world)
   \<and> toConcrete example_runtime (ref_count holding_world) (Atom_ObjectRef 10)
         (locals holding_world ''o'')
       = (Inr (N_NullableRef ''Sprite'' (Some 10)), incRef 10 (ref_count holding_world))
   \<and> ref_count holding_world 10 = 2
   \<and> incRef 10 (ref_count holding_world) 10 = 3
   \<and> ref_count (snd (snd (operator_call example_runtime ''o''
                             (ARG_UNPACK_ATOM False [Atom_ObjectRef 10] 1) holding_world))) 10
       = 2"
  using required_slot [of "ARG_UNPACK_ATOM False [] 0" example_runtime "''i''" example_world]
        required_slot [of "ARG_UNPACK_ATOM False [Atom_Integer 42] 1" example_runtime "''i''"
                          example_world "N_int32_t 42" "ref_count example_world"]
        required_slot [of "ARG_UNPACK_ATOM False [Atom_Integer 42] 1" example_runtime "''s''"
                          example_world _ "ref_count example_world"
                          "ArgumentError kCheckTypeFailedError [''Object'', ''flash.display::Sprite'']"]
        required_slot [of "ARG_UNPACK_ATOM False [Atom_ObjectRef 10] 1" example_runtime "''o''"
                          holding_world "N_NullableRef ''Sprite'' (Some 10)"
                          "incRef 10 (ref_count holding_world)"]
  by (simp add: ARG_UNPACK_ATOM_def ArgUnpackAtom_debug_def example_locals example_is_a
                example_toObject example_names example_scalars holding_locals
                holding_ref_count int32_t_toConcrete_def Ref_toConcrete_def
                NullableRef_toConcrete_def isNull_def isUndefined_def wrap_def
                ASObject_def release_def decRef_def incRef_def)

subsection \<open>The defaulted slot\<close>

text \<open>
  C2, as stated, fails where it says that no reference count is mutated when zero
  arguments remain: the assignment of the default to a handle variable moves
  references. Here the variable \<open>o\<close> holds a handle to the object at 10, whose count is
  2, and the default is the empty handle: the count goes to 1. In \<open>example_world\<close>,
  where \<open>o\<close> is empty, a default that holds the object at 11 takes its count from 1 to 2.
\<close>

theorem default_assignment_moves_references_counterexample:
  "argslen (ARG_UNPACK_ATOM False [] 0) = 0
   \<and> locals holding_world ''o'' = N_NullableRef ''Sprite'' (Some 10)
   \<and> ref_count holding_world 10 = 2
   \<and> ref_count (snd (snd (operator_call_default example_runtime ''o''
                             (N_NullableRef ''Sprite'' None)
                             (ARG_UNPACK_ATOM False [] 0) holding_world))) 10 = 1
   \<and> ref_count example_world 11 = 1
   \<and> ref_count (snd (snd (operator_call_default example_runtime ''o''
                             (N_NullableRef ''Sprite'' (Some 11))
                             (ARG_UNPACK_ATOM False [] 0) example_world))) 11 = 2"
  by (simp add: operator_call_default_def ARG_UNPACK_ATOM_def ArgUnpackAtom_debug_def
                holding_locals holding_ref_count example_locals example_ref_count
                retain_def release_def incRef_def decRef_def)

text \<open>
  C2, amended. A defaulted slot applied when at least one argument remains is the
  required slot: the same outcome, the same unpacker and the same world. Applied when
  \<open>argslen\<close> is zero, it returns normally, the variable holds the default, the cursor
  and \<open>argslen\<close> are as before, and no conversion runs. The reference counts change
  only by the assignment itself: the object of a default that is a handle gains one
  reference, and the object of the handle the variable held loses one. When neither
  the variable nor the default holds an object (scalars, \<^verbatim>\<open>asAtom\<close>, empty handles), no
  reference count changes.
\<close>

theorem defaulted_slot:
  "(0 < argslen u \<longrightarrow> operator_call_default R x d u w = operator_call R x u w)
   \<and> (argslen u = 0 \<longrightarrow>
        operator_call_default R x d u w
          = (None, u,
             w\<lparr>ref_count := release (locals w x) (retain d (ref_count w)),
               locals := (locals w)(x := d)\<rparr>))
   \<and> (argslen u = 0 \<and> held (locals w x) = None \<and> held d = None \<longrightarrow>
        operator_call_default R x d u w = (None, u, w\<lparr>locals := (locals w)(x := d)\<rparr>))
   \<and> retain d rc = (case held d of None \<Rightarrow> rc | Some p \<Rightarrow> rc(p := rc p + 1))
   \<and> release v rc = (case held v of None \<Rightarrow> rc | Some p \<Rightarrow> rc(p := rc p - 1))
   \<and> held (N_Ref T p) = Some p
   \<and> held (N_NullableRef T h) = h
   \<and> held (N_asAtom a) = None
   \<and> held (N_number_t n) = None
   \<and> held (N_bool b) = None
   \<and> held (N_uint32_t k) = None
   \<and> held (N_int32_t i) = None
   \<and> held (N_int64_t j) = None
   \<and> held (N_tiny_string s) = None
   \<and> held (N_RGB c) = None"
  by (simp add: operator_call_default_def operator_call_def retain_def release_def
                incRef_def decRef_def split: option.splits)

theorem defaulted_slot_witness:
  "0 < argslen (ARG_UNPACK_ATOM False [Atom_Boolean False] 1)
   \<and> operator_call_default example_runtime ''b'' (N_bool True)
         (ARG_UNPACK_ATOM False [Atom_Boolean False] 1) example_world
       = operator_call example_runtime ''b''
           (ARG_UNPACK_ATOM False [Atom_Boolean False] 1) example_world
   \<and> argslen (ARG_UNPACK_ATOM False [] 0) = 0
   \<and> held (locals example_world ''b'') = None
   \<and> held (N_bool True) = None
   \<and> operator_call_default example_runtime ''b'' (N_bool True)
         (ARG_UNPACK_ATOM False [] 0) example_world
       = (None, ARG_UNPACK_ATOM False [] 0,
          example_world\<lparr>locals := (locals example_world)(''b'' := N_bool True)\<rparr>)
   \<and> operator_call_default example_runtime ''o'' (N_NullableRef ''Sprite'' None)
         (ARG_UNPACK_ATOM False [] 0) holding_world
       = (None, ARG_UNPACK_ATOM False [] 0,
          holding_world\<lparr>ref_count := (ref_count holding_world)(10 := 1),
                        locals := (locals holding_world)
                                    (''o'' := N_NullableRef ''Sprite'' None)\<rparr>)"
  using defaulted_slot [of "ARG_UNPACK_ATOM False [Atom_Boolean False] 1" example_runtime
                           "''b''" "N_bool True" example_world]
        defaulted_slot [of "ARG_UNPACK_ATOM False [] 0" example_runtime
                           "''b''" "N_bool True" example_world]
        defaulted_slot [of "ARG_UNPACK_ATOM False [] 0" example_runtime
                           "''o''" "N_NullableRef ''Sprite'' None" holding_world
                           "ref_count holding_world" "N_NullableRef ''Sprite'' (Some 10)"]
  by (simp add: ARG_UNPACK_ATOM_def ArgUnpackAtom_debug_def example_locals holding_locals
                holding_ref_count)

subsection \<open>Null and undefined into reference slots\<close>

text \<open>
  C3, as stated, fails in both halves at the class \<open>ASObject\<close>. The specialisation for
  \<^verbatim>\<open>NullableRef<ASObject>\<close> has no test for null, so null gives a handle to the object
  that \<^verbatim>\<open>toObject\<close> returns for null (not the empty handle) and the count of that object
  goes from 1 to 2. For a strong reference the only test is \<^verbatim>\<open>is<T>\<close> (line 95): the
  comment at the head of the file says that Null derives directly from ASObject, and in
  a runtime where null is an \<open>ASObject\<close> the conversion of null into a \<^verbatim>\<open>Ref<ASObject>\<close>
  passes the test and returns a handle instead of throwing.
\<close>

theorem null_into_asobject_slots_counterexample:
  "toConcrete example_runtime (ref_count example_world) Atom_Null (N_NullableRef ASObject None)
     = (Inr (N_NullableRef ASObject (Some 0)), incRef 0 (ref_count example_world))
   \<and> N_NullableRef ASObject (Some 0) \<noteq> N_NullableRef ASObject None
   \<and> ref_count example_world 0 = 1
   \<and> incRef 0 (ref_count example_world) 0 = 2
   \<and> is_a example_runtime ASObject Atom_Null
   \<and> toConcrete example_runtime (ref_count example_world) Atom_Null (N_Ref ASObject 10)
       = (Inr (N_Ref ASObject 0), incRef 0 (ref_count example_world))"
  by (simp add: NullableRef_ASObject_toConcrete_def Ref_toConcrete_def wrap_def incRef_def
                ASObject_def example_toObject example_is_a example_ref_count)

text \<open>
  C3, amended. For every nullable-reference slot type \<^verbatim>\<open>NullableRef<T>\<close> other than
  \<^verbatim>\<open>NullableRef<ASObject>\<close>, the conversion of null or of undefined returns the empty
  handle and leaves the reference counts as they are. For a strong-reference slot
  \<^verbatim>\<open>Ref<T>\<close>, null and undefined go through the class test \<^verbatim>\<open>is<T>\<close> like every other
  value: when the test rejects the value the conversion throws the type-check-failed
  error, with the class name of the value and the qualified name of \<open>T\<close>, and leaves the
  reference counts as they are; when the test accepts it the conversion returns a
  handle to the object of the value, with one more reference.

  Both departures from the claim are by design. The specialisation for
  \<^verbatim>\<open>NullableRef<ASObject>\<close> is written out in full beside the generic template, repeats
  its \<^verbatim>\<open>toAbstract\<close>, and differs from it only in making no test at all: a slot of the
  class every value belongs to takes every value as an object. The strong reference
  has one explicit guard, the class test, and no test for null beside it.
\<close>

theorem null_into_reference_slots:
  "(T \<noteq> ASObject \<longrightarrow>
        NullableRef_toConcrete R rc T Atom_Null v = (Inr None, rc)
      \<and> NullableRef_toConcrete R rc T Atom_Undefined v = (Inr None, rc)
      \<and> toConcrete R rc Atom_Null (N_NullableRef T v) = (Inr (N_NullableRef T None), rc)
      \<and> toConcrete R rc Atom_Undefined (N_NullableRef T v) = (Inr (N_NullableRef T None), rc))
   \<and> (\<not> is_a R T Atom_Null \<longrightarrow>
        Ref_toConcrete R rc T Atom_Null p
          = (Inl (ArgumentError kCheckTypeFailedError
                    [getClassName R (toObject R Atom_Null), getQualifiedClassName R T]), rc)
      \<and> toConcrete R rc Atom_Null (N_Ref T p)
          = (Inl (ArgumentError kCheckTypeFailedError
                    [getClassName R (toObject R Atom_Null), getQualifiedClassName R T]), rc))
   \<and> (\<not> is_a R T Atom_Undefined \<longrightarrow>
        Ref_toConcrete R rc T Atom_Undefined p
          = (Inl (ArgumentError kCheckTypeFailedError
                    [getClassName R (toObject R Atom_Undefined), getQualifiedClassName R T]), rc)
      \<and> toConcrete R rc Atom_Undefined (N_Ref T p)
          = (Inl (ArgumentError kCheckTypeFailedError
                    [getClassName R (toObject R Atom_Undefined), getQualifiedClassName R T]), rc))
   \<and> (is_a R T Atom_Null \<longrightarrow>
        toConcrete R rc Atom_Null (N_Ref T p)
          = (Inr (N_Ref T (toObject R Atom_Null)), incRef (toObject R Atom_Null) rc))
   \<and> (is_a R T Atom_Undefined \<longrightarrow>
        toConcrete R rc Atom_Undefined (N_Ref T p)
          = (Inr (N_Ref T (toObject R Atom_Undefined)),
             incRef (toObject R Atom_Undefined) rc))"
  by (simp add: NullableRef_toConcrete_def Ref_toConcrete_def wrap_def isNull_def
                isUndefined_def)

theorem null_into_reference_slots_witness:
  "''Sprite'' \<noteq> ASObject
   \<and> toConcrete example_runtime (ref_count example_world) Atom_Null
         (N_NullableRef ''Sprite'' (Some 10))
       = (Inr (N_NullableRef ''Sprite'' None), ref_count example_world)
   \<and> toConcrete example_runtime (ref_count example_world) Atom_Undefined
         (N_NullableRef ''Sprite'' (Some 10))
       = (Inr (N_NullableRef ''Sprite'' None), ref_count example_world)
   \<and> \<not> is_a example_runtime ''Sprite'' Atom_Null
   \<and> toConcrete example_runtime (ref_count example_world) Atom_Null (N_Ref ''Sprite'' 10)
       = (Inl (ArgumentError kCheckTypeFailedError [''null'', ''flash.display::Sprite'']),
          ref_count example_world)
   \<and> \<not> is_a example_runtime ''Sprite'' Atom_Undefined
   \<and> toConcrete example_runtime (ref_count example_world) Atom_Undefined (N_Ref ''Sprite'' 10)
       = (Inl (ArgumentError kCheckTypeFailedError [''void'', ''flash.display::Sprite'']),
          ref_count example_world)
   \<and> is_a example_runtime ''ASObject'' Atom_Null
   \<and> toConcrete example_runtime (ref_count example_world) Atom_Null (N_Ref ''ASObject'' 10)
       = (Inr (N_Ref ''ASObject'' 0), incRef 0 (ref_count example_world))
   \<and> is_a example_runtime ''ASObject'' Atom_Undefined
   \<and> toConcrete example_runtime (ref_count example_world) Atom_Undefined
         (N_Ref ''ASObject'' 10)
       = (Inr (N_Ref ''ASObject'' 1), incRef 1 (ref_count example_world))"
  using null_into_reference_slots [of "''Sprite''" example_runtime "ref_count example_world"
                                      "Some 10" 10]
        null_into_reference_slots [of "''ASObject''" example_runtime "ref_count example_world"
                                      "Some 10" 10]
  by (simp add: ASObject_def wrap_def example_is_a example_toObject example_names)

subsection \<open>A value of an unrelated class into a strong-reference slot\<close>

text \<open>
  C4. When the class test \<^verbatim>\<open>is<T>\<close> rejects the dynamic value (its runtime class is not
  \<open>T\<close> or a subtype of \<open>T\<close>), the conversion into a \<^verbatim>\<open>Ref<T>\<close> throws the
  type-check-failed error carrying the class name of the value and the qualified class
  name of \<open>T\<close>, and a required slot whose variable is a \<^verbatim>\<open>Ref<T>\<close> throws that error
  and leaves the variable, with the rest of the state, as it was.
\<close>

theorem strong_ref_mismatch:
  "(\<not> is_a R T obj \<longrightarrow>
      Ref_toConcrete R rc T obj v
        = (Inl (ArgumentError kCheckTypeFailedError
                  [getClassName R (toObject R obj), getQualifiedClassName R T]), rc))
   \<and> (0 < argslen u \<and> args u < length (args_array u) \<and> locals w x = N_Ref T p
        \<and> \<not> is_a R T (args_array u ! args u) \<longrightarrow>
      operator_call R x u w
        = (Some (ArgumentError kCheckTypeFailedError
                   [getClassName R (toObject R (args_array u ! args u)),
                    getQualifiedClassName R T]), u, w))"
  by (simp add: Ref_toConcrete_def operator_call_def wrap_def)

theorem strong_ref_mismatch_witness:
  "\<not> is_a example_runtime ''Sprite'' (Atom_ObjectRef 11)
   \<and> Ref_toConcrete example_runtime (ref_count example_world) ''Sprite'' (Atom_ObjectRef 11) 10
       = (Inl (ArgumentError kCheckTypeFailedError [''Object'', ''flash.display::Sprite'']),
          ref_count example_world)
   \<and> locals example_world ''s'' = N_Ref ''Sprite'' 10
   \<and> operator_call example_runtime ''s'' (ARG_UNPACK_ATOM False [Atom_ObjectRef 11] 1)
         example_world
       = (Some (ArgumentError kCheckTypeFailedError [''Object'', ''flash.display::Sprite'']),
          ARG_UNPACK_ATOM False [Atom_ObjectRef 11] 1, example_world)"
  using strong_ref_mismatch [of example_runtime "''Sprite''" "Atom_ObjectRef 11"
                                "ref_count example_world" 10
                                "ARG_UNPACK_ATOM False [Atom_ObjectRef 11] 1"
                                example_world "''s''" 10]
  by (simp add: ARG_UNPACK_ATOM_def ArgUnpackAtom_debug_def example_locals example_is_a
                example_toObject example_names)

subsection \<open>Order of the slots and partial mutation\<close>

text \<open>
  C5. The slots run from left to right: the first slot is applied to the state the
  call site starts in, each later slot to the state the slot before it left, and no
  slot after one that throws; a required slot is \<^verbatim>\<open>operator()(T&)\<close> and a defaulted slot
  is \<^verbatim>\<open>operator()(T&, const TD&)\<close>. The unpack throws exactly when some slot \<open>k\<close> throws
  in the state that the slots before \<open>k\<close>, all returning normally, have produced; that
  state is then the final state: slot \<open>k\<close> changes nothing, and every variable that is
  not the target of a slot before \<open>k\<close> holds the value it had before the unpack. A
  variable written by a slot holds, at the end or at the throw, the value that slot
  wrote, unless a later slot that ran has the same target. In particular, with two
  required slots \<open>A\<close> and \<open>B\<close> on different variables, one argument, and a conversion of
  that argument for \<open>A\<close> that returns \<open>a\<close>, the unpack throws the wrong-argument-count
  error of slot \<open>B\<close>, \<open>A\<close> holds \<open>a\<close> and \<open>B\<close> holds what it held; and with a defaulted slot
  \<open>B\<close> between required slots \<open>A\<close> and \<open>C\<close>, the unpack throws that error at \<open>C\<close>, \<open>A\<close>
  holds \<open>a\<close>, \<open>B\<close> holds its default and \<open>C\<close> holds what it held.
\<close>

theorem slots_in_order:
  "unpack R [] u w = (None, u, w)
   \<and> unpack R (s # ss) u w
       = (case apply_slot R s u w of
            (Some e, u', w') \<Rightarrow> (Some e, u', w')
          | (None, u', w') \<Rightarrow> unpack R ss u' w')
   \<and> apply_slot R (Required x) u w = operator_call R x u w
   \<and> apply_slot R (Defaulted x d) u w = operator_call_default R x d u w
   \<and> (unpack R ss u w = (Some e, u', w') \<longrightarrow>
        (\<exists>k<length ss.
             unpack R (take k ss) u w = (None, u', w')
           \<and> apply_slot R (ss ! k) u' w' = (Some e, u', w')
           \<and> (\<forall>y. y \<notin> slot_var ` set (take k ss) \<longrightarrow> locals w' y = locals w y)))
   \<and> (k < length ss \<and> unpack R (take k ss) u w = (None, u1, w1)
        \<and> apply_slot R (ss ! k) u1 w1 = (Some e, u2, w2) \<longrightarrow>
        unpack R ss u w = (Some e, u1, w1) \<and> u2 = u1 \<and> w2 = w1)
   \<and> (i < length ss \<and> unpack R (take i ss) u w = (None, ui, wi)
        \<and> apply_slot R (ss ! i) ui wi = (None, ui', wi')
        \<and> slot_var (ss ! i) \<notin> slot_var ` set (drop (Suc i) ss)
        \<and> unpack R ss u w = (r, u_end, w_end) \<longrightarrow>
        locals w_end (slot_var (ss ! i)) = locals wi' (slot_var (ss ! i)))
   \<and> (A \<noteq> B \<and> argslen u = 1 \<and> args u < length (args_array u)
        \<and> toConcrete R (ref_count w) (args_array u ! args u) (locals w A) = (Inr a, rc) \<longrightarrow>
        unpack R [Required A, Required B] u w
          = (Some (ArgumentError kWrongArgumentCountError [''object'', ''?'', ''?'']),
             u\<lparr>args := args u + 1, argslen := 0\<rparr>,
             w\<lparr>ref_count := release (locals w A) rc, locals := (locals w)(A := a)\<rparr>)
      \<and> locals (snd (snd (unpack R [Required A, Required B] u w))) A = a
      \<and> locals (snd (snd (unpack R [Required A, Required B] u w))) B = locals w B)
   \<and> (A \<noteq> B \<and> A \<noteq> C \<and> B \<noteq> C \<and> argslen u = 1 \<and> args u < length (args_array u)
        \<and> toConcrete R (ref_count w) (args_array u ! args u) (locals w A) = (Inr a, rc) \<longrightarrow>
        unpack R [Required A, Defaulted B d, Required C] u w
          = (Some (ArgumentError kWrongArgumentCountError [''object'', ''?'', ''?'']),
             u\<lparr>args := args u + 1, argslen := 0\<rparr>,
             w\<lparr>ref_count := release (locals w B) (retain d (release (locals w A) rc)),
               locals := (locals w)(A := a, B := d)\<rparr>)
      \<and> locals (snd (snd (unpack R [Required A, Defaulted B d, Required C] u w))) A = a
      \<and> locals (snd (snd (unpack R [Required A, Defaulted B d, Required C] u w))) B = d
      \<and> locals (snd (snd (unpack R [Required A, Defaulted B d, Required C] u w))) C
           = locals w C)"
proof (intro conjI impI)
  show "unpack R [] u w = (None, u, w)"
    by simp
  show "unpack R (s # ss) u w
       = (case apply_slot R s u w of
            (Some e, u', w') \<Rightarrow> (Some e, u', w')
          | (None, u', w') \<Rightarrow> unpack R ss u' w')"
    by simp
  show "apply_slot R (Required x) u w = operator_call R x u w"
    by simp
  show "apply_slot R (Defaulted x d) u w = operator_call_default R x d u w"
    by simp
next
  assume thrown: "unpack R ss u w = (Some e, u', w')"
  from unpack_throw_at [OF thrown] obtain k where k: "k < length ss"
    and pre: "unpack R (take k ss) u w = (None, u', w')"
    and at: "apply_slot R (ss ! k) u' w' = (Some e, u', w')"
    by blast
  have "\<forall>y. y \<notin> slot_var ` set (take k ss) \<longrightarrow> locals w' y = locals w y"
    using unpack_other_locals [OF pre] by blast
  with k pre at
  show "\<exists>k<length ss.
           unpack R (take k ss) u w = (None, u', w')
         \<and> apply_slot R (ss ! k) u' w' = (Some e, u', w')
         \<and> (\<forall>y. y \<notin> slot_var ` set (take k ss) \<longrightarrow> locals w' y = locals w y)"
    by blast
next
  assume h: "k < length ss \<and> unpack R (take k ss) u w = (None, u1, w1)
        \<and> apply_slot R (ss ! k) u1 w1 = (Some e, u2, w2)"
  then show "unpack R ss u w = (Some e, u1, w1)"
    using unpack_throws_at_slot by blast
  from h show "u2 = u1" and "w2 = w1"
    using apply_slot_throw_keeps_state by blast+
next
  assume "i < length ss \<and> unpack R (take i ss) u w = (None, ui, wi)
        \<and> apply_slot R (ss ! i) ui wi = (None, ui', wi')
        \<and> slot_var (ss ! i) \<notin> slot_var ` set (drop (Suc i) ss)
        \<and> unpack R ss u w = (r, u_end, w_end)"
  then show "locals w_end (slot_var (ss ! i)) = locals wi' (slot_var (ss ! i))"
    using unpack_keeps_written by blast
next
  assume h: "A \<noteq> B \<and> argslen u = 1 \<and> args u < length (args_array u)
        \<and> toConcrete R (ref_count w) (args_array u ! args u) (locals w A) = (Inr a, rc)"
  then have first: "operator_call R A u w
      = (None, u\<lparr>args := args u + 1, argslen := 0\<rparr>,
         w\<lparr>ref_count := release (locals w A) rc, locals := (locals w)(A := a)\<rparr>)"
    by (simp add: operator_call_def)
  have second: "operator_call R B (u\<lparr>args := args u + 1, argslen := 0\<rparr>)
        (w\<lparr>ref_count := release (locals w A) rc, locals := (locals w)(A := a)\<rparr>)
      = (Some (ArgumentError kWrongArgumentCountError [''object'', ''?'', ''?'']),
         u\<lparr>args := args u + 1, argslen := 0\<rparr>,
         w\<lparr>ref_count := release (locals w A) rc, locals := (locals w)(A := a)\<rparr>)"
    by (simp add: operator_call_def)
  from first second
  show both: "unpack R [Required A, Required B] u w
          = (Some (ArgumentError kWrongArgumentCountError [''object'', ''?'', ''?'']),
             u\<lparr>args := args u + 1, argslen := 0\<rparr>,
             w\<lparr>ref_count := release (locals w A) rc, locals := (locals w)(A := a)\<rparr>)"
    by simp
  from both show "locals (snd (snd (unpack R [Required A, Required B] u w))) A = a"
    by simp
  from h have "B \<noteq> A"
    by blast
  with both show "locals (snd (snd (unpack R [Required A, Required B] u w))) B = locals w B"
    by simp
next
  assume h: "A \<noteq> B \<and> A \<noteq> C \<and> B \<noteq> C \<and> argslen u = 1 \<and> args u < length (args_array u)
        \<and> toConcrete R (ref_count w) (args_array u ! args u) (locals w A) = (Inr a, rc)"
  let ?u1 = "u\<lparr>args := args u + 1, argslen := 0\<rparr>"
  let ?w1 = "w\<lparr>ref_count := release (locals w A) rc, locals := (locals w)(A := a)\<rparr>"
  let ?w2 = "w\<lparr>ref_count := release (locals w B) (retain d (release (locals w A) rc)),
               locals := (locals w)(A := a, B := d)\<rparr>"
  from h have ne: "B \<noteq> A" "C \<noteq> A" "C \<noteq> B"
    by blast+
  from h have first: "operator_call R A u w = (None, ?u1, ?w1)"
    by (simp add: operator_call_def)
  from ne have second: "operator_call_default R B d ?u1 ?w1 = (None, ?u1, ?w2)"
    by (simp add: operator_call_default_def)
  have third: "operator_call R C ?u1 ?w2
      = (Some (ArgumentError kWrongArgumentCountError [''object'', ''?'', ''?'']), ?u1, ?w2)"
    by (simp add: operator_call_def)
  from first second third
  show all: "unpack R [Required A, Defaulted B d, Required C] u w
      = (Some (ArgumentError kWrongArgumentCountError [''object'', ''?'', ''?'']), ?u1, ?w2)"
    by simp
  from all ne show "locals (snd (snd (unpack R [Required A, Defaulted B d, Required C] u w))) A
      = a"
    by simp
  from all show "locals (snd (snd (unpack R [Required A, Defaulted B d, Required C] u w))) B
      = d"
    by simp
  from all ne show "locals (snd (snd (unpack R [Required A, Defaulted B d, Required C] u w))) C
      = locals w C"
    by simp
qed

theorem slots_in_order_witness:
  "unpack example_runtime [Required ''i'', Required ''b'']
       (ARG_UNPACK_ATOM False [Atom_Integer 42] 1) example_world
     = (Some (ArgumentError kWrongArgumentCountError [''object'', ''?'', ''?'']),
        \<lparr>args_array = [Atom_Integer 42], args = 1, argslen = 0, moreAllowed = Some False\<rparr>,
        example_world\<lparr>ref_count := ref_count example_world,
                      locals := (locals example_world)(''i'' := N_int32_t 42)\<rparr>)
   \<and> unpack example_runtime [Required ''i'', Defaulted ''b'' (N_bool True), Required ''s'']
         (ARG_UNPACK_ATOM False [Atom_Integer 42] 1) example_world
       = (Some (ArgumentError kWrongArgumentCountError [''object'', ''?'', ''?'']),
          \<lparr>args_array = [Atom_Integer 42], args = 1, argslen = 0, moreAllowed = Some False\<rparr>,
          example_world\<lparr>ref_count := ref_count example_world,
                        locals := (locals example_world)
                                    (''i'' := N_int32_t 42, ''b'' := N_bool True)\<rparr>)
   \<and> locals (snd (snd (unpack example_runtime
                          [Required ''i'', Defaulted ''b'' (N_bool True), Required ''s'']
                          (ARG_UNPACK_ATOM False [Atom_Integer 42] 1) example_world))) ''i''
       = N_int32_t 42
   \<and> locals (snd (snd (unpack example_runtime
                          [Required ''i'', Defaulted ''b'' (N_bool True), Required ''s'']
                          (ARG_UNPACK_ATOM False [Atom_Integer 42] 1) example_world))) ''b''
       = N_bool True
   \<and> locals (snd (snd (unpack example_runtime
                          [Required ''i'', Defaulted ''b'' (N_bool True), Required ''s'']
                          (ARG_UNPACK_ATOM False [Atom_Integer 42] 1) example_world))) ''s''
       = N_Ref ''Sprite'' 10
   \<and> (\<exists>k<3.
          unpack example_runtime
              (take k [Required ''i'', Defaulted ''b'' (N_bool True), Required ''s''])
              (ARG_UNPACK_ATOM False [Atom_Integer 42] 1) example_world
            = (None,
               \<lparr>args_array = [Atom_Integer 42], args = 1, argslen = 0,
                  moreAllowed = Some False\<rparr>,
               example_world\<lparr>ref_count := ref_count example_world,
                             locals := (locals example_world)
                                         (''i'' := N_int32_t 42, ''b'' := N_bool True)\<rparr>))
   \<and> unpack example_runtime [Required ''i'']
         (ARG_UNPACK_ATOM False [Atom_Integer 42] 1) example_world
       = (None,
          \<lparr>args_array = [Atom_Integer 42], args = 1, argslen = 0, moreAllowed = Some False\<rparr>,
          example_world\<lparr>ref_count := ref_count example_world,
                        locals := (locals example_world)(''i'' := N_int32_t 42)\<rparr>)"
proof -
  let ?u = "ARG_UNPACK_ATOM False [Atom_Integer 42] 1"
  let ?u' = "\<lparr>args_array = [Atom_Integer 42], args = 1, argslen = 0,
               moreAllowed = Some False\<rparr>"
  let ?w = example_world
  let ?w1 = "example_world\<lparr>ref_count := ref_count example_world,
                           locals := (locals example_world)(''i'' := N_int32_t 42)\<rparr>"
  let ?w2 = "example_world\<lparr>ref_count := ref_count example_world,
                           locals := (locals example_world)
                                       (''i'' := N_int32_t 42, ''b'' := N_bool True)\<rparr>"
  let ?e = "ArgumentError kWrongArgumentCountError [''object'', ''?'', ''?'']"
  let ?ss2 = "[Required ''i'', Required ''b'']"
  let ?ss3 = "[Required ''i'', Defaulted ''b'' (N_bool True), Required ''s'']"
  note evals = ARG_UNPACK_ATOM_def ArgUnpackAtom_debug_def example_locals example_scalars
    int32_t_toConcrete_def release_def retain_def
  have hyp2: "''i'' \<noteq> ''b'' \<and> argslen ?u = 1 \<and> args ?u < length (args_array ?u)
      \<and> toConcrete example_runtime (ref_count ?w) (args_array ?u ! args ?u)
            (locals ?w ''i'') = (Inr (N_int32_t 42), ref_count ?w)"
    by (simp add: evals)
  have hyp3: "''i'' \<noteq> ''b'' \<and> ''i'' \<noteq> ''s'' \<and> ''b'' \<noteq> ''s'' \<and> argslen ?u = 1
      \<and> args ?u < length (args_array ?u)
      \<and> toConcrete example_runtime (ref_count ?w) (args_array ?u ! args ?u)
            (locals ?w ''i'') = (Inr (N_int32_t 42), ref_count ?w)"
    by (simp add: evals)
  note inst = slots_in_order [where R = example_runtime and u = ?u and w = ?w
      and ss = ?ss3 and e = ?e and u' = ?u' and w' = ?w2
      and k = 2 and ?u1.0 = ?u' and ?w1.0 = ?w2 and ?u2.0 = ?u' and ?w2.0 = ?w2
      and i = 0 and ui = ?u and wi = ?w and ui' = ?u' and wi' = ?w1
      and r = "Some ?e" and u_end = ?u' and w_end = ?w2
      and A = "''i''" and B = "''b''" and C = "''s''" and a = "N_int32_t 42"
      and rc = "ref_count ?w" and d = "N_bool True"]
  from inst hyp2 have two: "unpack example_runtime ?ss2 ?u ?w = (Some ?e, ?u', ?w1)"
    by (simp add: evals del: unpack.simps apply_slot.simps)
  from inst hyp3 have three: "unpack example_runtime ?ss3 ?u ?w = (Some ?e, ?u', ?w2)"
    by (simp add: evals del: unpack.simps apply_slot.simps)
  from inst hyp3 have held:
    "locals (snd (snd (unpack example_runtime ?ss3 ?u ?w))) ''i'' = N_int32_t 42"
    "locals (snd (snd (unpack example_runtime ?ss3 ?u ?w))) ''b'' = N_bool True"
    "locals (snd (snd (unpack example_runtime ?ss3 ?u ?w))) ''s'' = N_Ref ''Sprite'' 10"
    by (simp_all add: evals del: unpack.simps apply_slot.simps)
  from inst three obtain k where "k < length ?ss3"
    and pre: "unpack example_runtime (take k ?ss3) ?u ?w = (None, ?u', ?w2)"
    by blast
  then have "k < 3"
    by simp
  with pre have at: "\<exists>k<3. unpack example_runtime (take k ?ss3) ?u ?w = (None, ?u', ?w2)"
    by blast
  have one: "unpack example_runtime [Required ''i''] ?u ?w = (None, ?u', ?w1)"
    by (simp add: operator_call_def evals)
  have start: "0 < length ?ss3 \<and> unpack example_runtime (take 0 ?ss3) ?u ?w = (None, ?u, ?w)
      \<and> apply_slot example_runtime (?ss3 ! 0) ?u ?w = (None, ?u', ?w1)
      \<and> slot_var (?ss3 ! 0) \<notin> slot_var ` set (drop (Suc 0) ?ss3)
      \<and> unpack example_runtime ?ss3 ?u ?w = (Some ?e, ?u', ?w2)"
    by (simp add: operator_call_def operator_call_default_def evals)
  from inst start have kept: "locals ?w2 (slot_var (?ss3 ! 0)) = locals ?w1 (slot_var (?ss3 ! 0))"
    by blast
  have last: "2 < length ?ss3 \<and> unpack example_runtime (take 2 ?ss3) ?u ?w = (None, ?u', ?w2)
      \<and> apply_slot example_runtime (?ss3 ! 2) ?u' ?w2 = (Some ?e, ?u', ?w2)"
    by (simp add: operator_call_def operator_call_default_def evals)
  from inst last have again: "unpack example_runtime ?ss3 ?u ?w = (Some ?e, ?u', ?w2)"
    by blast
  from two three again kept held at one show ?thesis
    by blast
qed

subsection \<open>The universal reference slot\<close>

text \<open>
  C6, as stated, fails: the conversion into an \<^verbatim>\<open>asAtom\<close> variable does check the
  value when the variable already holds a valid value that is neither null nor
  undefined. Here the variable holds an integer, the argument is an object that
  \<^verbatim>\<open>checkArgumentConversion\<close> rejects for it, and the conversion throws the
  type-check-failed error without touching the reference counts.
\<close>

theorem universal_slot_checks_counterexample:
  "asAtom_toConcrete example_runtime (ref_count example_world) (Atom_ObjectRef 10)
       (Atom_Integer 5)
     = (Inl (ArgumentError kCheckTypeFailedError [''Sprite'', ''?'']),
        ref_count example_world)"
  by (simp add: asAtom_toConcrete_def isNull_def isUndefined_def isValid_def example_check
                example_toObject example_names)

text \<open>
  C6, amended. For the universal reference slot type, a null dynamic value is returned
  as the null sentinel and an undefined one as the undefined sentinel, both without a
  type check and without a reference-count change. An object is returned as it is,
  with its reference count incremented, when the variable holds the invalid, the null
  or the undefined value, or when \<^verbatim>\<open>checkArgumentConversion\<close> accepts the object for the
  value the variable holds; when the variable holds any other value and
  \<^verbatim>\<open>checkArgumentConversion\<close> rejects the object, the conversion throws the
  type-check-failed error with the class name of the object and the placeholder
  \<^verbatim>\<open>?\<close>, and the reference counts are unchanged.
\<close>

theorem universal_slot:
  "asAtom_toConcrete R rc Atom_Null v = (Inr nullAtom, rc)
   \<and> nullAtom = Atom_Null
   \<and> asAtom_toConcrete R rc Atom_Undefined v = (Inr undefinedAtom, rc)
   \<and> undefinedAtom = Atom_Undefined
   \<and> (v = Atom_Invalid \<or> v = Atom_Null \<or> v = Atom_Undefined
        \<or> checkArgumentConversion R v (Atom_ObjectRef p) \<longrightarrow>
      asAtom_toConcrete R rc (Atom_ObjectRef p) v = (Inr (Atom_ObjectRef p), incRef p rc)
      \<and> incRef p rc = rc(p := rc p + 1))
   \<and> (v \<noteq> Atom_Invalid \<and> v \<noteq> Atom_Null \<and> v \<noteq> Atom_Undefined
        \<and> \<not> checkArgumentConversion R v (Atom_ObjectRef p) \<longrightarrow>
      asAtom_toConcrete R rc (Atom_ObjectRef p) v
        = (Inl (ArgumentError kCheckTypeFailedError
                  [getClassName R (toObject R (Atom_ObjectRef p)), ''?'']), rc))"
  by (auto simp: asAtom_toConcrete_def isNull_def isUndefined_def isValid_def nullAtom_def
                 undefinedAtom_def incRef_def)

theorem universal_slot_witness:
  "asAtom_toConcrete example_runtime (ref_count example_world) (Atom_ObjectRef 10) Atom_Invalid
     = (Inr (Atom_ObjectRef 10), incRef 10 (ref_count example_world))
   \<and> checkArgumentConversion example_runtime (Atom_ObjectRef 11) (Atom_ObjectRef 10)
   \<and> asAtom_toConcrete example_runtime (ref_count example_world) (Atom_ObjectRef 10)
         (Atom_ObjectRef 11)
       = (Inr (Atom_ObjectRef 10), incRef 10 (ref_count example_world))
   \<and> \<not> checkArgumentConversion example_runtime (Atom_Integer 5) (Atom_ObjectRef 10)
   \<and> asAtom_toConcrete example_runtime (ref_count example_world) (Atom_ObjectRef 10)
         (Atom_Integer 5)
       = (Inl (ArgumentError kCheckTypeFailedError [''Sprite'', ''?'']),
          ref_count example_world)"
  using universal_slot [of example_runtime "ref_count example_world" Atom_Invalid 10]
        universal_slot [of example_runtime "ref_count example_world" "Atom_ObjectRef 11" 10]
        universal_slot [of example_runtime "ref_count example_world" "Atom_Integer 5" 10]
  by (simp add: example_check example_toObject example_names)

subsection \<open>The scalar slots\<close>

text \<open>
  C7. For each scalar slot type the conversion is the scalar conversion of the dynamic
  value and nothing more: \<^verbatim>\<open>toNumber\<close> for \<^verbatim>\<open>number_t\<close>, \<^verbatim>\<open>Boolean_concrete\<close> for \<^verbatim>\<open>bool\<close>,
  \<^verbatim>\<open>toUInt\<close> for \<^verbatim>\<open>uint32_t\<close>, \<^verbatim>\<open>toInt\<close> for \<^verbatim>\<open>int32_t\<close>, \<^verbatim>\<open>toInt64\<close> for \<^verbatim>\<open>int64_t\<close>,
  \<^verbatim>\<open>toString\<close> for \<^verbatim>\<open>tiny_string\<close>, and for \<^verbatim>\<open>RGB\<close> the colour built by the \<^verbatim>\<open>RGB\<close>
  constructor from \<^verbatim>\<open>toUInt\<close>. The result does not depend on the value the variable
  held; the conversion never throws and leaves the reference counts as they are.
\<close>

theorem scalar_slots_delegate:
  "number_t_toConcrete R obj n = toNumber R obj
   \<and> bool_toConcrete R obj b = Boolean_concrete R obj
   \<and> uint32_t_toConcrete R obj k = toUInt R obj
   \<and> int32_t_toConcrete R obj i = toInt R obj
   \<and> int64_t_toConcrete R obj j = toInt64 R obj
   \<and> tiny_string_toConcrete R obj s = toString R obj
   \<and> RGB_toConcrete R obj c = RGB_of_uint R (toUInt R obj)
   \<and> toConcrete R rc obj (N_number_t n) = (Inr (N_number_t (toNumber R obj)), rc)
   \<and> toConcrete R rc obj (N_bool b) = (Inr (N_bool (Boolean_concrete R obj)), rc)
   \<and> toConcrete R rc obj (N_uint32_t k) = (Inr (N_uint32_t (toUInt R obj)), rc)
   \<and> toConcrete R rc obj (N_int32_t i) = (Inr (N_int32_t (toInt R obj)), rc)
   \<and> toConcrete R rc obj (N_int64_t j) = (Inr (N_int64_t (toInt64 R obj)), rc)
   \<and> toConcrete R rc obj (N_tiny_string s) = (Inr (N_tiny_string (toString R obj)), rc)
   \<and> toConcrete R rc obj (N_RGB c) = (Inr (N_RGB (RGB_of_uint R (toUInt R obj))), rc)"
  by (simp add: number_t_toConcrete_def bool_toConcrete_def uint32_t_toConcrete_def
                int32_t_toConcrete_def int64_t_toConcrete_def tiny_string_toConcrete_def
                RGB_toConcrete_def)

theorem scalar_slots_delegate_witness:
  "bool_toConcrete example_runtime (Atom_String ''true'') False = True
   \<and> toConcrete example_runtime (ref_count example_world) (Atom_Integer 42) (N_int32_t 0)
       = (Inr (N_int32_t 42), ref_count example_world)"
  using scalar_slots_delegate [of example_runtime "Atom_String ''true''" _ False]
        scalar_slots_delegate [of example_runtime "Atom_Integer 42" _ _ _ 0 _ _ _
                                  "ref_count example_world"]
  by (simp add: example_scalars)

subsection \<open>Reverse conversion of the reference types\<close>

text \<open>
  C8. The reverse conversion of a reference that holds an object returns the ObjectRef
  value of that object, and the count of the object is one more than before (every
  other count unchanged): for a \<^verbatim>\<open>Ref<T>\<close>, for a \<^verbatim>\<open>NullableRef<T>\<close> that is not empty,
  for a \<^verbatim>\<open>NullableRef<ASObject>\<close> that is not empty, and for an \<^verbatim>\<open>asAtom\<close> that is an
  object. The empty \<^verbatim>\<open>NullableRef\<close>, and the invalid and the null \<^verbatim>\<open>asAtom\<close>, give the
  Null value and leave the reference counts as they are.
\<close>

theorem reverse_reference_conversion:
  "Ref_toAbstract rc p = (Atom_ObjectRef p, incRef p rc)
   \<and> NullableRef_toAbstract rc (Some p) = (Atom_ObjectRef p, incRef p rc)
   \<and> NullableRef_ASObject_toAbstract rc (Some p) = (Atom_ObjectRef p, incRef p rc)
   \<and> asAtom_toAbstract rc (Atom_ObjectRef p) = (Atom_ObjectRef p, incRef p rc)
   \<and> incRef p rc = rc(p := rc p + 1)
   \<and> NullableRef_toAbstract rc None = (Atom_Null, rc)
   \<and> NullableRef_ASObject_toAbstract rc None = (Atom_Null, rc)
   \<and> asAtom_toAbstract rc Atom_Invalid = (Atom_Null, rc)
   \<and> asAtom_toAbstract rc Atom_Null = (Atom_Null, rc)"
  by (simp add: Ref_toAbstract_def NullableRef_toAbstract_def
                NullableRef_ASObject_toAbstract_def asAtom_toAbstract_def fromObject_def
                incRef_def isInvalid_def)

theorem reverse_reference_conversion_witness:
  "Ref_toAbstract (ref_count example_world) 10
     = (Atom_ObjectRef 10, incRef 10 (ref_count example_world))
   \<and> incRef 10 (ref_count example_world) 10 = 2
   \<and> incRef 10 (ref_count example_world) 11 = 1
   \<and> NullableRef_toAbstract (ref_count example_world) None
       = (Atom_Null, ref_count example_world)"
  using reverse_reference_conversion [of "ref_count example_world" 10]
  by (simp add: example_ref_count)

subsection \<open>The diagnostic at destruction\<close>

text \<open>
  C9, as stated, fails in a build with \<^verbatim>\<open>NDEBUG\<close>: there \<^verbatim>\<open>ARG_UNPACK_ATOM\<close> makes an
  unpacker with no mode and no destructor, and destroying it with one argument left
  logs nothing.
\<close>

theorem no_diagnostic_with_NDEBUG_counterexample:
  "0 < argslen (ARG_UNPACK_ATOM True [Atom_Integer 99] 1)
   \<and> logged example_world = []
   \<and> logged (destructor (ARG_UNPACK_ATOM True [Atom_Integer 99] 1) example_world) = []"
  by (simp add: ARG_UNPACK_ATOM_def ArgUnpackAtom_ndebug_def destructor_def example_logged)

text \<open>
  C9, amended. In a build without \<^verbatim>\<open>NDEBUG\<close>: destroying an unpacker in exact-arity
  mode with \<open>argslen\<close> greater than zero adds exactly one entry to the log, the same
  for every such \<open>argslen\<close>; with \<open>argslen\<close> zero nothing is logged; in extra-allowed
  mode nothing is ever logged. In a build with \<^verbatim>\<open>NDEBUG\<close> nothing is ever logged. The
  mode is the one the macro gave at construction: applying slots does not change it.
\<close>

theorem extra_arguments_diagnostic:
  "(moreAllowed u = Some False \<and> 0 < argslen u \<longrightarrow>
      destructor u w
        = w\<lparr>logged := logged w @ [(LOG_NOT_IMPLEMENTED, ''Not all arguments were unpacked'')]\<rparr>)
   \<and> (argslen u = 0 \<longrightarrow> destructor u w = w)
   \<and> (moreAllowed u = Some True \<longrightarrow> destructor u w = w)
   \<and> (moreAllowed u = None \<longrightarrow> destructor u w = w)
   \<and> moreAllowed (ARG_UNPACK_ATOM False a n) = Some False
   \<and> moreAllowed (ARG_UNPACK_ATOM_MORE_ALLOWED False a n) = Some True
   \<and> moreAllowed (ARG_UNPACK_ATOM True a n) = None
   \<and> moreAllowed (ARG_UNPACK_ATOM_MORE_ALLOWED True a n) = None
   \<and> (unpack R ss u w = (r, u', w') \<longrightarrow> moreAllowed u' = moreAllowed u)"
proof -
  have "unpack R ss u w = (r, u', w') \<longrightarrow> moreAllowed u' = moreAllowed u"
    using unpack_keeps_mode by blast
  then show ?thesis
    by (simp add: destructor_def LOG_def ARG_UNPACK_ATOM_def ARG_UNPACK_ATOM_MORE_ALLOWED_def
                  ArgUnpackAtom_debug_def ArgUnpackAtom_ndebug_def split: option.splits)
qed

theorem extra_arguments_diagnostic_witness:
  "logged (destructor (ARG_UNPACK_ATOM False [Atom_Integer 99] 1) example_world)
     = [(LOG_NOT_IMPLEMENTED, ''Not all arguments were unpacked'')]
   \<and> logged (destructor (ARG_UNPACK_ATOM False [Atom_Integer 98, Atom_Integer 99] 2)
               example_world)
     = [(LOG_NOT_IMPLEMENTED, ''Not all arguments were unpacked'')]
   \<and> destructor (ARG_UNPACK_ATOM False [] 0) example_world = example_world
   \<and> destructor (ARG_UNPACK_ATOM_MORE_ALLOWED False [Atom_Integer 99] 1) example_world
       = example_world
   \<and> destructor (ARG_UNPACK_ATOM True [Atom_Integer 99] 1) example_world = example_world
   \<and> unpack example_runtime [] (ARG_UNPACK_ATOM False [] 0) example_world
       = (None, ARG_UNPACK_ATOM False [] 0, example_world)
   \<and> moreAllowed (ARG_UNPACK_ATOM False [] 0) = Some False"
  using extra_arguments_diagnostic [of "ARG_UNPACK_ATOM False [Atom_Integer 99] 1"
                                       example_world]
        extra_arguments_diagnostic [of "ARG_UNPACK_ATOM False [Atom_Integer 98, Atom_Integer 99] 2"
                                       example_world]
        extra_arguments_diagnostic [of "ARG_UNPACK_ATOM False [] 0" example_world "[]" 0
                                       example_runtime "[]" None "ARG_UNPACK_ATOM False [] 0"
                                       example_world]
        extra_arguments_diagnostic [of "ARG_UNPACK_ATOM_MORE_ALLOWED False [Atom_Integer 99] 1"
                                       example_world]
        extra_arguments_diagnostic [of "ARG_UNPACK_ATOM True [Atom_Integer 99] 1"
                                       example_world]
  by (simp add: ARG_UNPACK_ATOM_def ARG_UNPACK_ATOM_MORE_ALLOWED_def ArgUnpackAtom_debug_def
                ArgUnpackAtom_ndebug_def example_logged)

subsection \<open>The nullable universal-object slot\<close>

text \<open>
  C10. For every dynamic value, null and undefined included, the conversion into a
  \<^verbatim>\<open>NullableRef<ASObject>\<close> never throws: it returns a handle that holds the object
  \<^verbatim>\<open>toObject\<close> gives for the value, so never the empty handle, and the count of that
  object is one more than before, every other count being unchanged. The same holds
  when the conversion is reached through the variable's type.
\<close>

theorem nullable_asobject_never_fails:
  "NullableRef_ASObject_toConcrete R rc obj v
     = (Inr (Some (toObject R obj)), incRef (toObject R obj) rc)
   \<and> fst (NullableRef_ASObject_toConcrete R rc obj v) \<noteq> Inr None
   \<and> snd (NullableRef_ASObject_toConcrete R rc obj v) (toObject R obj)
       = rc (toObject R obj) + 1
   \<and> snd (NullableRef_ASObject_toConcrete R rc obj v) \<noteq> rc
   \<and> toConcrete R rc obj (N_NullableRef ASObject v)
       = (Inr (N_NullableRef ASObject (Some (toObject R obj))), incRef (toObject R obj) rc)"
proof -
  have "incRef (toObject R obj) rc (toObject R obj) \<noteq> rc (toObject R obj)"
    by (simp add: incRef_def)
  then have "incRef (toObject R obj) rc \<noteq> rc"
    by metis
  then show ?thesis
    by (simp add: NullableRef_ASObject_toConcrete_def incRef_def wrap_def)
qed

theorem nullable_asobject_never_fails_witness:
  "toConcrete example_runtime (ref_count example_world) Atom_Null (N_NullableRef ASObject None)
     = (Inr (N_NullableRef ASObject (Some 0)), incRef 0 (ref_count example_world))
   \<and> toConcrete example_runtime (ref_count example_world) Atom_Undefined
         (N_NullableRef ASObject None)
       = (Inr (N_NullableRef ASObject (Some 1)), incRef 1 (ref_count example_world))
   \<and> toConcrete example_runtime (ref_count example_world) (Atom_Integer 42)
         (N_NullableRef ASObject None)
       = (Inr (N_NullableRef ASObject (Some 2)), incRef 2 (ref_count example_world))"
  using nullable_asobject_never_fails [of example_runtime "ref_count example_world" Atom_Null None]
        nullable_asobject_never_fails [of example_runtime "ref_count example_world"
                                          Atom_Undefined None]
        nullable_asobject_never_fails [of example_runtime "ref_count example_world"
                                          "Atom_Integer 42" None]
  by (simp add: example_toObject wrap_def)

end
